theory Spec2Isabelle
  imports Complex_Main
begin

section \<open>Numbers\<close>

text \<open>
  The engine computes with Python floats that are kept on decimal grids by
  \<^verbatim>\<open>round(x, ndigits)\<close>.  The model computes with exact real numbers: a float is
  read as the decimal number it prints as, \<^verbatim>\<open>round\<close> rounds half to even at
  the given number of decimal digits, and the \<^verbatim>\<open>Decimal(str(x)) % Decimal(str(y))\<close>
  test of \<^verbatim>\<open>is_divisible\<close> is exact divisibility.  Timestamps (\<^verbatim>\<open>now()\<close>) are
  not modelled.
\<close>

definition round_half_even :: "real \<Rightarrow> int" where
  "round_half_even x =
     (let f = \<lfloor>x\<rfloor>; d = x - of_int f
      in if d < 1 / 2 then f else if 1 / 2 < d then f + 1
         else if even f then f else f + 1)"

definition pow10 :: "int \<Rightarrow> real" where
  "pow10 n = (if 0 \<le> n then 10 ^ nat n else 1 / 10 ^ nat (- n))"

definition py_round :: "real \<Rightarrow> int \<Rightarrow> real" where
  "py_round x ndigits = of_int (round_half_even (x * pow10 ndigits)) / pow10 ndigits"

text \<open>utils.is_divisible\<close>

definition is_divisible :: "real \<Rightarrow> real \<Rightarrow> bool" where
  "is_divisible x y = (y \<noteq> 0 \<and> x / y = of_int \<lfloor>x / y\<rfloor>)"

section \<open>Instrument\<close>

record LotSize =
  max_qty :: real
  min_qty :: real
  step_size :: real

record PriceDetails =
  tick_size :: real
  min_price :: real
  max_price :: real

record Precision =
  price_precision :: int
  quote_precision :: int
  quantity_precision :: int
  base_asset_precision :: int

record Instrument =
  symbol :: string
  lot_size :: LotSize
  precision :: Precision
  price_details :: PriceDetails

definition adjust_price :: "Instrument \<Rightarrow> real \<Rightarrow> real" where
  "adjust_price i p = py_round p (price_precision (precision i))"

definition adjust_quantity :: "Instrument \<Rightarrow> real \<Rightarrow> real" where
  "adjust_quantity i q = py_round q (quantity_precision (precision i))"

section \<open>Side\<close>

datatype Side = BID | ASK

fun side_value :: "Side \<Rightarrow> real" where
  "side_value BID = 1"
| "side_value ASK = - 1"

fun is_bid :: "Side \<Rightarrow> bool" where
  "is_bid BID = True"
| "is_bid ASK = False"

text \<open>Side.__neg__\<close>

fun neg :: "Side \<Rightarrow> Side" where
  "neg BID = ASK"
| "neg ASK = BID"

text \<open>Side.__mul__ and __rmul__\<close>

definition smul :: "Side \<Rightarrow> real \<Rightarrow> real" where
  "smul s x = side_value s * x"

text \<open>Side.__str__\<close>

fun side_str :: "Side \<Rightarrow> string" where
  "side_str BID = ''BID''"
| "side_str ASK = ''ASK''"

section \<open>Objects\<close>

text \<open>
  Orders and queues are mutable objects that refer to each other, so they live
  in two stores indexed by references; a field that may hold \<^verbatim>\<open>None\<close> is an
  option.  Reading an attribute through \<^verbatim>\<open>None\<close> raises \<^verbatim>\<open>AttributeError\<close>.
\<close>

type_synonym ref = nat

record Order =
  owner :: string
  instrument :: Instrument
  oside :: Side
  quantity :: real
  price :: real
  oprev :: "ref option"
  onext :: "ref option"
  queue :: "ref option"
  order_id :: string
  remaining :: real
  last_filled_quantity :: real

record Queue =
  limit :: real
  qside :: Side
  notify :: bool
  volume_precision :: int
  qprev :: "ref option"
  qnext :: "ref option"
  ohead :: "ref option"
  otail :: "ref option"
  volume :: real
  nb_orders :: int

record Fill =
  fill_order_id :: string
  fill_price :: real
  fill_quantity :: real

text \<open>Order.infos(), without the two timestamps\<close>

record Infos =
  info_order_id :: string
  info_side :: string
  info_quantity :: real
  info_remaining :: real
  info_price :: real

text \<open>
  The messages handed to the callback.  \<^verbatim>\<open>Fill.__str__\<close> returns after its
  first f-string, so the text of a fill shows its price only.  The reason of a
  rejection is either the caller's text, which quotes the quantity and the
  available liquidity, or the default text.
\<close>

datatype Reason = Greater_than_available real real | No_available_liquidity

datatype Message =
    New_Fill real
  | Order_Event string Infos
  | Rejected Reason string real "real option"

fun status :: "Message \<Rightarrow> string" where
  "status (New_Fill p) = ''New Fill''"
| "status (Order_Event s i) = s"
| "status (Rejected r s q p) = ''rejected''"

datatype ext = PInf | Fin real

record Orderbook =
  max_ask :: real
  min_bid :: ext
  best_queue :: "Side \<Rightarrow> ref option"
  best_volumes :: "Side \<Rightarrow> real"
  queues :: "real \<rightharpoonup> ref"
  order_map :: "string \<rightharpoonup> ref"
  prev_mid :: "real option"
  curr_mid :: "real option"
  book_instrument :: Instrument
  send_private :: bool
  orders :: "ref \<Rightarrow> Order"
  queue_objs :: "ref \<Rightarrow> Queue"
  fresh :: nat
  sent :: "(string \<times> Message) list"

text \<open>
  Beyond the fields of the class, the state holds the two object stores, the
  allocation counter \<open>fresh\<close> (the next unused reference, which also numbers the
  identifiers drawn by \<^verbatim>\<open>uuid.uuid4()\<close>), and \<open>sent\<close>, the calls made to the
  \<^verbatim>\<open>send_private\<close> callback so far, oldest first.  \<open>send_private\<close> and the
  \<open>notify\<close> of a queue say whether a callback is installed (the constructor's
  default is \<^verbatim>\<open>None\<close>).
\<close>

datatype exn = OrderbookException | TypeError | AttributeError | KeyError

datatype 'a outcome = Returned 'a | Raised exn | Diverges

type_synonym 'a prog = "Orderbook \<Rightarrow> 'a outcome \<times> Orderbook"

definition bind :: "'a prog \<Rightarrow> ('a \<Rightarrow> 'b prog) \<Rightarrow> 'b prog" where
  "bind m f ob =
     (case m ob of
        (Returned a, ob') \<Rightarrow> f a ob'
      | (Raised e, ob') \<Rightarrow> (Raised e, ob')
      | (Diverges, ob') \<Rightarrow> (Diverges, ob'))"

definition done_with :: "Orderbook \<Rightarrow> unit outcome \<times> Orderbook" where
  "done_with ob = (Returned (), ob)"

definition upd_order :: "ref \<Rightarrow> (Order \<Rightarrow> Order) \<Rightarrow> Orderbook \<Rightarrow> Orderbook" where
  "upd_order r f ob = ob\<lparr>orders := (orders ob)(r := f (orders ob r))\<rparr>"

definition upd_queue :: "ref \<Rightarrow> (Queue \<Rightarrow> Queue) \<Rightarrow> Orderbook \<Rightarrow> Orderbook" where
  "upd_queue q f ob = ob\<lparr>queue_objs := (queue_objs ob)(q := f (queue_objs ob q))\<rparr>"

definition call_back :: "string \<Rightarrow> Message \<Rightarrow> Orderbook \<Rightarrow> Orderbook" where
  "call_back client_id message ob = ob\<lparr>sent := sent ob @ [(client_id, message)]\<rparr>"

definition uuid4 :: "nat \<Rightarrow> string" where
  "uuid4 n = ''id'' @ replicate n (CHR ''+'')"

section \<open>Order\<close>

definition filled :: "Order \<Rightarrow> bool" where
  "filled od = (remaining od = 0)"

definition infos :: "Order \<Rightarrow> Infos" where
  "infos od = \<lparr>info_order_id = order_id od, info_side = side_str (oside od),
     info_quantity = quantity od, info_remaining = remaining od, info_price = price od\<rparr>"

text \<open>Order(owner, instrument, side, quantity, price) with its __post_init__\<close>

definition new_order :: "string \<Rightarrow> Side \<Rightarrow> real \<Rightarrow> real \<Rightarrow> Orderbook \<Rightarrow> ref \<times> Orderbook" where
  "new_order client_id s qty p ob =
     (let r = fresh ob;
          od = \<lparr>owner = client_id, instrument = book_instrument ob, oside = s,
               quantity = qty, price = p, oprev = None, onext = None, queue = None,
               order_id = uuid4 r, remaining = qty, last_filled_quantity = 0\<rparr>
      in (r, ob\<lparr>orders := (orders ob)(r := od), fresh := Suc r\<rparr>))"

definition update :: "ref \<Rightarrow> real option \<Rightarrow> real option \<Rightarrow> ref option \<Rightarrow> Orderbook \<Rightarrow> Orderbook" where
  "update r p qty q ob =
     upd_order r (\<lambda>od.
       let o1 = (case p of None \<Rightarrow> od | Some v \<Rightarrow> od\<lparr>price := v\<rparr>);
           o2 = (case qty of None \<Rightarrow> o1 | Some v \<Rightarrow> o1\<lparr>quantity := v, remaining := v\<rparr>)
       in (case q of None \<Rightarrow> o2 | Some v \<Rightarrow> o2\<lparr>queue := Some v\<rparr>)) ob"

definition add_fill :: "ref \<Rightarrow> real \<Rightarrow> Orderbook \<Rightarrow> Fill \<times> Orderbook" where
  "add_fill r qty ob =
     (let od = orders ob r;
          fill = \<lparr>fill_order_id = order_id od, fill_price = price od, fill_quantity = qty\<rparr>
      in (fill, upd_order r (\<lambda>od. od\<lparr>last_filled_quantity := qty,
            remaining := py_round (remaining od - qty) (quote_precision (precision (instrument od)))\<rparr>) ob))"

section \<open>Queue\<close>

definition empty :: "Queue \<Rightarrow> bool" where
  "empty q = (volume q = 0)"

definition rv :: "Queue \<Rightarrow> real \<Rightarrow> real" where
  "rv q x = py_round x (volume_precision q)"

text \<open>Queue(limit, side, notify) with its __post_init__\<close>

definition new_queue :: "real \<Rightarrow> Side \<Rightarrow> Orderbook \<Rightarrow> ref \<times> Orderbook" where
  "new_queue p s ob =
     (let r = fresh ob;
          q = \<lparr>limit = p, qside = s, notify = send_private ob, volume_precision = 2,
               qprev = None, qnext = None, ohead = None, otail = None,
               volume = 0, nb_orders = 0\<rparr>
      in (r, ob\<lparr>queue_objs := (queue_objs ob)(r := q), fresh := Suc r\<rparr>))"

text \<open>Queue._notify\<close>

definition notify_order :: "ref \<Rightarrow> string \<Rightarrow> ref \<Rightarrow> Orderbook \<Rightarrow> Orderbook" where
  "notify_order q st r ob =
     (if notify (queue_objs ob q)
      then call_back (owner (orders ob r)) (Order_Event st (infos (orders ob r))) ob
      else ob)"

text \<open>Queue.add\<close>

definition add :: "ref \<Rightarrow> ref \<Rightarrow> unit prog" where
  "add q r ob =
     bind
       (\<lambda>ob. case ohead (queue_objs ob q) of
          None \<Rightarrow> done_with (upd_queue q (\<lambda>x. x\<lparr>ohead := Some r, otail := Some r\<rparr>) ob)
        | Some h \<Rightarrow>
            (let ob1 = upd_order r (\<lambda>od. od\<lparr>oprev := otail (queue_objs ob q), onext := None\<rparr>) ob
             in case otail (queue_objs ob1 q) of
                  None \<Rightarrow> (Raised AttributeError, ob1)
                | Some t \<Rightarrow>
                    done_with (upd_queue q (\<lambda>x. x\<lparr>otail := Some r\<rparr>)
                      (upd_order t (\<lambda>od. od\<lparr>onext := Some r\<rparr>) ob1))))
       (\<lambda>_ ob.
          let ob1 = upd_queue q (\<lambda>x. x\<lparr>volume := rv x (volume x + quantity (orders ob r)),
                      nb_orders := nb_orders x + 1\<rparr>) ob;
              ob2 = update r None None (Some q) ob1
          in done_with (notify_order q ''New order'' r ob2))
       ob"

text \<open>Order.__eq__ against a field that may be None\<close>

definition order_eq :: "ref \<Rightarrow> ref option \<Rightarrow> bool prog" where
  "order_eq r other ob =
     (case other of
        None \<Rightarrow> (Raised AttributeError, ob)
      | Some r' \<Rightarrow> (Returned (order_id (orders ob r) = order_id (orders ob r')), ob))"

text \<open>An assignment \<^verbatim>\<open>x.f = v\<close> where \<^verbatim>\<open>x\<close> may be None\<close>

definition set_order :: "ref option \<Rightarrow> (Order \<Rightarrow> Order) \<Rightarrow> unit prog" where
  "set_order target f ob =
     (case target of
        None \<Rightarrow> (Raised AttributeError, ob)
      | Some r \<Rightarrow> done_with (upd_order r f ob))"

definition set_queue :: "ref option \<Rightarrow> (Queue \<Rightarrow> Queue) \<Rightarrow> unit prog" where
  "set_queue target f ob =
     (case target of
        None \<Rightarrow> (Raised AttributeError, ob)
      | Some q \<Rightarrow> done_with (upd_queue q f ob))"

text \<open>Queue.remove\<close>

definition remove :: "ref \<Rightarrow> ref \<Rightarrow> unit prog" where
  "remove q r ob =
     (let ob1 = upd_queue q (\<lambda>x. x\<lparr>nb_orders := nb_orders x - 1\<rparr>) ob;
          od = orders ob1 r;
          ob2 = (if filled od
                 then upd_queue q (\<lambda>x. x\<lparr>volume := rv x (volume x - last_filled_quantity od)\<rparr>) ob1
                 else upd_queue q (\<lambda>x. x\<lparr>volume := rv x (volume x - remaining od)\<rparr>) ob1)
      in bind (order_eq r (ohead (queue_objs ob2 q))) (\<lambda>is_head.
         bind (if is_head then order_eq r (otail (queue_objs ob2 q)) else (\<lambda>ob. (Returned False, ob)))
           (\<lambda>is_only.
         if is_only
         then (\<lambda>ob. done_with (upd_queue q (\<lambda>x. x\<lparr>ohead := None, otail := None\<rparr>) ob))
         else bind (order_eq r (otail (queue_objs ob2 q))) (\<lambda>is_tail.
           if is_tail
           then (\<lambda>ob. let ob3 = upd_queue q (\<lambda>x. x\<lparr>otail := oprev (orders ob r)\<rparr>) ob
                      in set_order (oprev (orders ob3 r)) (\<lambda>od. od\<lparr>onext := None\<rparr>) ob3)
           else if is_head
           then (\<lambda>ob. let ob3 = upd_queue q (\<lambda>x. x\<lparr>ohead := onext (orders ob r)\<rparr>) ob
                      in set_order (onext (orders ob3 r)) (\<lambda>od. od\<lparr>oprev := None\<rparr>) ob3)
           else (\<lambda>ob. bind (set_order (onext (orders ob r)) (\<lambda>od. od\<lparr>oprev := oprev (orders ob r)\<rparr>))
                      (\<lambda>_ ob. set_order (oprev (orders ob r)) (\<lambda>od. od\<lparr>onext := onext (orders ob r)\<rparr>) ob)
                      ob)))) ob2)"

text \<open>Queue.fill\<close>

definition fill :: "ref \<Rightarrow> ref \<Rightarrow> real \<Rightarrow> Orderbook \<Rightarrow> Orderbook" where
  "fill q r qty ob =
     (let (f, ob1) = add_fill r qty ob;
          ob2 = (if notify (queue_objs ob1 q)
                 then call_back (fill_order_id f) (New_Fill (fill_price f)) ob1 else ob1)
      in if filled (orders ob2 r)
         then notify_order q ''Filled'' r ob2
         else upd_queue q (\<lambda>x. x\<lparr>volume := rv x (volume x - qty)\<rparr>)
                (notify_order q ''Partial fill'' r ob2))"

section \<open>Orderbook\<close>

definition no_order :: Order where
  "no_order = \<lparr>owner = [], instrument = \<lparr>symbol = [],
       lot_size = \<lparr>max_qty = 0, min_qty = 0, step_size = 0\<rparr>,
       precision = \<lparr>price_precision = 0, quote_precision = 0, quantity_precision = 0,
         base_asset_precision = 0\<rparr>,
       price_details = \<lparr>tick_size = 0, min_price = 0, max_price = 0\<rparr>\<rparr>,
     oside = BID, quantity = 0, price = 0, oprev = None, onext = None, queue = None,
     order_id = [], remaining = 0, last_filled_quantity = 0\<rparr>"

definition no_queue :: Queue where
  "no_queue = \<lparr>limit = 0, qside = BID, notify = False, volume_precision = 2,
     qprev = None, qnext = None, ohead = None, otail = None, volume = 0, nb_orders = 0\<rparr>"

text \<open>Orderbook.__init__; nothing is allocated yet, so the stores hold blanks.\<close>

definition init :: "Instrument \<Rightarrow> bool \<Rightarrow> Orderbook" where
  "init i callback =
     \<lparr>max_ask = 0, min_bid = PInf, best_queue = (\<lambda>_. None), best_volumes = (\<lambda>_. 0),
      queues = Map.empty, order_map = Map.empty, prev_mid = None, curr_mid = None,
      book_instrument = i, send_private = callback,
      orders = (\<lambda>_. no_order), queue_objs = (\<lambda>_. no_queue), fresh = 0, sent = []\<rparr>"

definition book_tick_size :: "Orderbook \<Rightarrow> real" where
  "book_tick_size ob = tick_size (price_details (book_instrument ob))"

text \<open>
  Orderbook._update_mid; the tests on \<^verbatim>\<open>exist_any\<close> and on each best queue being
  None are the four cases below.  In the two-sided branch \<^verbatim>\<open>self._curr_mid < self._prev_mid\<close>
  is evaluated only when the naive mid is on the grid, and raises TypeError when
  the previous mid is None.
\<close>

definition update_mid :: "unit prog" where
  "update_mid ob =
     (let i = book_instrument ob
      in case (best_queue ob ASK, best_queue ob BID) of
           (None, None) \<Rightarrow> done_with (ob\<lparr>prev_mid := None, curr_mid := None\<rparr>)
         | (None, Some b) \<Rightarrow>
             done_with (ob\<lparr>curr_mid := Some (adjust_price i
               (limit (queue_objs ob b) + 1 / 2 * book_tick_size ob))\<rparr>)
         | (Some a, None) \<Rightarrow>
             done_with (ob\<lparr>curr_mid := Some (adjust_price i
               (limit (queue_objs ob a) - 1 / 2 * book_tick_size ob))\<rparr>)
         | (Some a, Some b) \<Rightarrow>
            (let ob1 = ob\<lparr>prev_mid := curr_mid ob\<rparr>;
                 best_ask = limit (queue_objs ob1 a);
                 best_bid = limit (queue_objs ob1 b);
                 m = adjust_price i (1 / 2 * (best_ask + best_bid));
                 ob2 = ob1\<lparr>curr_mid := Some m\<rparr>;
                 half_tick = 1 / 2 * book_tick_size ob2
             in if is_divisible m (book_tick_size ob2)
                then (case prev_mid ob2 of
                        None \<Rightarrow> (Raised TypeError, ob2)
                      | Some p \<Rightarrow>
                          done_with (ob2\<lparr>curr_mid := Some (adjust_price i
                            (if m < p then m + half_tick else m - half_tick))\<rparr>))
                else done_with (ob2\<lparr>curr_mid := Some (adjust_price i m)\<rparr>)))"

text \<open>
  Orderbook._find_prev_queue: the scan has no bound of its own, so it is a
  partial function; \<open>None\<close> is a scan that never returns.
\<close>

partial_function (option) find_prev_scan :: "Orderbook \<Rightarrow> Side \<Rightarrow> real \<Rightarrow> ref option" where
  "find_prev_scan ob s current_limit =
     (let c = adjust_price (book_instrument ob) (current_limit + smul s (book_tick_size ob))
      in case queues ob c of
           Some current_queue \<Rightarrow> Some current_queue
         | None \<Rightarrow> find_prev_scan ob s c)"

declare find_prev_scan.simps [code]

definition find_prev_queue :: "real \<Rightarrow> Side \<Rightarrow> ref prog" where
  "find_prev_queue l s ob =
     (case find_prev_scan ob s l of
        None \<Rightarrow> (Diverges, ob)
      | Some q \<Rightarrow> (Returned q, ob))"

text \<open>\<^verbatim>\<open>min(price, self.min_bid)\<close> against the float infinity\<close>

fun ext_min :: "real \<Rightarrow> ext \<Rightarrow> ext" where
  "ext_min p PInf = Fin p"
| "ext_min p (Fin m) = Fin (min p m)"

text \<open>Orderbook._create_queue\<close>

definition create_queue :: "Side \<Rightarrow> real \<Rightarrow> ref prog" where
  "create_queue s p ob =
     (let ob1 = (if is_bid s then ob\<lparr>min_bid := ext_min p (min_bid ob)\<rparr>
                 else ob\<lparr>max_ask := max p (max_ask ob)\<rparr>);
          (nq, ob2) = new_queue p s ob1
      in bind
           (\<lambda>ob. case best_queue ob s of
              None \<Rightarrow> update_mid (ob\<lparr>best_queue := (best_queue ob)(s := Some nq)\<rparr>)
            | Some b \<Rightarrow>
                if smul s p > smul s (limit (queue_objs ob b))
                then (let ob3 = upd_queue nq (\<lambda>x. x\<lparr>qprev := None\<rparr>) ob;
                          ob4 = upd_queue nq (\<lambda>x. x\<lparr>qnext := Some b\<rparr>) ob3;
                          ob5 = upd_queue b (\<lambda>x. x\<lparr>qprev := Some nq\<rparr>) ob4;
                          ob6 = ob5\<lparr>best_queue := (best_queue ob5)(s := Some nq)\<rparr>
                      in update_mid ob6)
                else bind (find_prev_queue p s) (\<lambda>prev_queue ob.
                       let ob3 = upd_queue nq (\<lambda>x. x\<lparr>qprev := Some prev_queue\<rparr>) ob;
                           ob4 = upd_queue nq (\<lambda>x. x\<lparr>qnext := qnext (queue_objs ob3 prev_queue)\<rparr>) ob3;
                           ob5 = (case qnext (queue_objs ob4 prev_queue) of
                                    None \<Rightarrow> ob4
                                  | Some n \<Rightarrow> upd_queue n (\<lambda>x. x\<lparr>qprev := Some nq\<rparr>) ob4)
                       in done_with (upd_queue prev_queue (\<lambda>x. x\<lparr>qnext := Some nq\<rparr>) ob5)) ob)
           (\<lambda>_ ob. (Returned nq, ob\<lparr>queues := (queues ob)(p \<mapsto> nq)\<rparr>))
           ob2)"

text \<open>\<^verbatim>\<open>del self.queues[key]\<close>\<close>

definition del_queues :: "real \<Rightarrow> unit prog" where
  "del_queues k ob =
     (if k \<in> dom (queues ob) then done_with (ob\<lparr>queues := (queues ob)(k := None)\<rparr>)
      else (Raised KeyError, ob))"

text \<open>
  Orderbook._delete_queue.  \<^verbatim>\<open>queue == self.best_queue[side]\<close> is Queue.__eq__,
  which compares the limits and raises AttributeError against None.
\<close>

definition delete_queue :: "Side \<Rightarrow> ref \<Rightarrow> unit prog" where
  "delete_queue s q ob =
     bind
       (\<lambda>ob. case best_queue ob s of
          None \<Rightarrow> (Raised AttributeError, ob)
        | Some b \<Rightarrow>
            if limit (queue_objs ob q) = limit (queue_objs ob b)
            then (let ob1 = ob\<lparr>best_queue := (best_queue ob)(s := qnext (queue_objs ob q))\<rparr>;
                      ob2 = (case qnext (queue_objs ob1 q) of
                               None \<Rightarrow> ob1
                             | Some n \<Rightarrow> upd_queue n (\<lambda>x. x\<lparr>qprev := None\<rparr>) ob1)
                  in update_mid ob2)
            else bind (set_queue (qprev (queue_objs ob q))
                         (\<lambda>x. x\<lparr>qnext := qnext (queue_objs ob q)\<rparr>))
                   (\<lambda>_ ob. done_with
                      (case qnext (queue_objs ob q) of
                         None \<Rightarrow> ob
                       | Some n \<Rightarrow> upd_queue n (\<lambda>x. x\<lparr>qprev := qprev (queue_objs ob q)\<rparr>) ob))
                   ob)
       (\<lambda>_ ob.
          let ob1 = (if is_bid s \<and> Fin (limit (queue_objs ob q)) = min_bid ob
                     then (case qprev (queue_objs ob q) of
                             None \<Rightarrow> ob\<lparr>min_bid := PInf\<rparr>
                           | Some p \<Rightarrow> ob\<lparr>min_bid := Fin (limit (queue_objs ob p))\<rparr>)
                     else ob);
              ob2 = (if \<not> is_bid s \<and> limit (queue_objs ob1 q) = max_ask ob1
                     then (case qprev (queue_objs ob1 q) of
                             None \<Rightarrow> ob1\<lparr>max_ask := 0\<rparr>
                           | Some p \<Rightarrow> ob1\<lparr>max_ask := limit (queue_objs ob1 p)\<rparr>)
                     else ob1)
          in del_queues (limit (queue_objs ob2 q)) ob2)
       ob"

text \<open>Orderbook._reject_market; calling a callback that is None raises TypeError.\<close>

definition call_send_private :: "string \<Rightarrow> Message \<Rightarrow> unit prog" where
  "call_send_private client_id message ob =
     (if send_private ob then done_with (call_back client_id message ob)
      else (Raised TypeError, ob))"

definition reject_market :: "string \<Rightarrow> Reason option \<Rightarrow> string \<Rightarrow> real \<Rightarrow> real option \<Rightarrow> unit prog" where
  "reject_market client_id reason s qty p ob =
     (let r = (case reason of None \<Rightarrow> No_available_liquidity | Some x \<Rightarrow> x)
      in call_send_private client_id (Rejected r s qty p) ob)"

text \<open>Orderbook._get_order\<close>

definition get_order :: "string \<Rightarrow> ref prog" where
  "get_order oid ob =
     (case order_map ob oid of
        None \<Rightarrow> (Raised OrderbookException, ob)
      | Some r \<Rightarrow> (Returned r, ob))"

text \<open>\<^verbatim>\<open>self.best_volumes[side] = adjust_quantity(self.best_volumes[side] + delta)\<close>\<close>

definition add_best_volume :: "Side \<Rightarrow> real \<Rightarrow> Orderbook \<Rightarrow> Orderbook" where
  "add_best_volume s delta ob =
     ob\<lparr>best_volumes := (best_volumes ob)
       (s := adjust_quantity (book_instrument ob) (best_volumes ob s + delta))\<rparr>"

text \<open>Orderbook._insert_order\<close>

definition insert_order :: "ref \<Rightarrow> unit prog" where
  "insert_order r ob =
     (let ob1 = ob\<lparr>order_map := (order_map ob)(order_id (orders ob r) \<mapsto> r)\<rparr>
      in bind
           (\<lambda>ob. case queues ob (price (orders ob r)) of
              Some q \<Rightarrow> (Returned q, ob)
            | None \<Rightarrow> create_queue (oside (orders ob r)) (price (orders ob r)) ob)
           (\<lambda>q. bind (add q r) (\<lambda>_ ob.
              done_with (add_best_volume (oside (orders ob r)) (quantity (orders ob r)) ob)))
           ob1)"

text \<open>
  The body of the loop of Orderbook.on_marketable, up to the deletion of an
  emptied queue; it returns the quantity that is left.  The filled order is
  looked up in \<open>order_map\<close> (a KeyError when absent) and nothing else.
\<close>

definition marketable_body :: "Side \<Rightarrow> ref \<Rightarrow> real \<Rightarrow> real prog" where
  "marketable_body s q qty_left ob =
     (case ohead (queue_objs ob q) of
        None \<Rightarrow> (Raised AttributeError, ob)
      | Some r \<Rightarrow>
         (let qty = min qty_left (remaining (orders ob r));
              ob1 = fill q r qty ob;
              ob2 = add_best_volume (oside (orders ob1 r)) (- qty) ob1
          in bind
               (\<lambda>ob. if filled (orders ob r)
                  then bind (remove q r) (\<lambda>_ ob.
                         if order_id (orders ob r) \<in> dom (order_map ob) then done_with ob
                         else (Raised KeyError, ob)) ob
                  else done_with ob)
               (\<lambda>_ ob.
                  let qty_left' = adjust_quantity (book_instrument ob) (qty_left - qty)
                  in bind (\<lambda>ob. if empty (queue_objs ob q) then delete_queue (neg s) q ob
                                 else done_with ob)
                       (\<lambda>_ ob. (Returned qty_left', ob)) ob)
               ob2))"

partial_function (option) marketable_loop ::
    "Side \<Rightarrow> real \<Rightarrow> ref \<Rightarrow> real \<Rightarrow> Orderbook \<Rightarrow> (real outcome \<times> Orderbook) option" where
  "marketable_loop s p q qty_left ob =
     (if qty_left \<noteq> 0 \<and> smul s (limit (queue_objs ob q)) \<le> smul s p
      then (case marketable_body s q qty_left ob of
              (Returned qty_left', ob') \<Rightarrow>
                (case best_queue ob' (neg s) of
                   None \<Rightarrow> Some (Returned qty_left', ob')
                 | Some q' \<Rightarrow> marketable_loop s p q' qty_left' ob')
            | (Raised e, ob') \<Rightarrow> Some (Raised e, ob')
            | (Diverges, ob') \<Rightarrow> Some (Diverges, ob'))
      else Some (Returned qty_left, ob))"

declare marketable_loop.simps [code]

text \<open>Orderbook.on_marketable\<close>

definition on_marketable :: "Side \<Rightarrow> real \<Rightarrow> real \<Rightarrow> string \<Rightarrow> unit prog" where
  "on_marketable s qty p client_id ob =
     (case best_queue ob (neg s) of
        None \<Rightarrow> reject_market client_id None (side_str s) qty (Some p) ob
      | Some q \<Rightarrow>
         (case marketable_loop s p q qty ob of
            None \<Rightarrow> (Diverges, ob)
          | Some (Returned qty_left, ob') \<Rightarrow>
              if qty_left \<noteq> 0
              then (let (r, ob'') = new_order client_id s qty_left p ob' in insert_order r ob'')
              else done_with ob'
          | Some (Raised e, ob') \<Rightarrow> (Raised e, ob')
          | Some (Diverges, ob') \<Rightarrow> (Diverges, ob')))"

text \<open>Orderbook.on_limit\<close>

definition on_limit :: "Side \<Rightarrow> real \<Rightarrow> real \<Rightarrow> string \<Rightarrow> unit prog" where
  "on_limit s qty p client_id ob =
     (if (case best_queue ob (neg s) of
            None \<Rightarrow> False
          | Some b \<Rightarrow> smul s p \<ge> smul s (limit (queue_objs ob b)))
      then on_marketable s qty p client_id ob
      else (let (r, ob') = new_order client_id s qty p ob in insert_order r ob'))"

text \<open>
  The body of the loop of Orderbook.on_market for a best queue that exists; here
  the filled order is deleted from \<open>order_map\<close>.
\<close>

definition market_body :: "Side \<Rightarrow> ref \<Rightarrow> real \<Rightarrow> real prog" where
  "market_body s q qty_left ob =
     (case ohead (queue_objs ob q) of
        None \<Rightarrow> (Raised AttributeError, ob)
      | Some r \<Rightarrow>
         (let qty = min qty_left (remaining (orders ob r));
              ob1 = fill q r qty ob;
              ob2 = add_best_volume (oside (orders ob1 r)) (- qty) ob1
          in bind
               (\<lambda>ob. if filled (orders ob r)
                  then bind (remove q r) (\<lambda>_ ob.
                         if order_id (orders ob r) \<in> dom (order_map ob)
                         then done_with (ob\<lparr>order_map := (order_map ob)(order_id (orders ob r) := None)\<rparr>)
                         else (Raised KeyError, ob)) ob
                  else done_with ob)
               (\<lambda>_. bind (\<lambda>ob. if empty (queue_objs ob q) then delete_queue s q ob
                                else done_with ob)
                       (\<lambda>_ ob. (Returned (adjust_quantity (book_instrument ob) (qty_left - qty)), ob)))
               ob2))"

partial_function (option) market_loop ::
    "Side \<Rightarrow> real \<Rightarrow> string \<Rightarrow> real \<Rightarrow> Orderbook \<Rightarrow> (unit outcome \<times> Orderbook) option" where
  "market_loop s qty client_id qty_left ob =
     (if qty_left \<noteq> 0
      then (case best_queue ob s of
              None \<Rightarrow> Some (reject_market client_id None (side_str s) qty None ob)
            | Some q \<Rightarrow>
               (case market_body s q qty_left ob of
                  (Returned qty_left', ob') \<Rightarrow> market_loop s qty client_id qty_left' ob'
                | (Raised e, ob') \<Rightarrow> Some (Raised e, ob')
                | (Diverges, ob') \<Rightarrow> Some (Diverges, ob')))
      else Some (Returned (), ob))"

declare market_loop.simps [code]

text \<open>Orderbook.on_market\<close>

definition on_market :: "Side \<Rightarrow> real \<Rightarrow> string \<Rightarrow> unit prog" where
  "on_market s qty client_id ob =
     (let available = best_volumes ob s
      in if qty > available
         then reject_market client_id (Some (Greater_than_available qty available))
                (side_str s) qty None ob
         else (case market_loop s qty client_id qty ob of
                 None \<Rightarrow> (Diverges, ob)
               | Some res \<Rightarrow> res))"

text \<open>\<^verbatim>\<open>del self.order_map[key]\<close>\<close>

definition del_order_map :: "string \<Rightarrow> unit prog" where
  "del_order_map k ob =
     (if k \<in> dom (order_map ob) then done_with (ob\<lparr>order_map := (order_map ob)(k := None)\<rparr>)
      else (Raised KeyError, ob))"

text \<open>Orderbook.on_cancel\<close>

definition on_cancel :: "string \<Rightarrow> unit prog" where
  "on_cancel oid =
     bind (get_order oid) (\<lambda>r ob.
       let message = Order_Event ''Cancelled'' (infos (orders ob r));
           client_id = owner (orders ob r)
       in case queue (orders ob r) of
            None \<Rightarrow> (Raised AttributeError, ob)
          | Some q \<Rightarrow>
              bind (remove q r) (\<lambda>_ ob.
                bind (\<lambda>ob. if empty (queue_objs ob q)
                            then delete_queue (oside (orders ob r)) q ob
                            else done_with ob)
                  (\<lambda>_. bind (\<lambda>ob. del_order_map (order_id (orders ob r)) ob)
                     (\<lambda>_. call_send_private client_id message))
                  (add_best_volume (oside (orders ob r)) (- quantity (orders ob r)) ob))
              ob)"

text \<open>Orderbook.on_amend\<close>

definition on_amend :: "string \<Rightarrow> real \<Rightarrow> real \<Rightarrow> unit prog" where
  "on_amend oid qty p =
     bind (get_order oid) (\<lambda>r ob.
       let s = oside (orders ob r)
       in case queue (orders ob r) of
            None \<Rightarrow> (Raised AttributeError, ob)
          | Some q \<Rightarrow>
              bind (remove q r) (\<lambda>_ ob.
                bind (\<lambda>ob. if empty (queue_objs ob q) \<and> limit (queue_objs ob q) \<noteq> p
                            then del_queues (limit (queue_objs ob q)) ob
                            else done_with ob)
                  (\<lambda>_ ob.
                     case curr_mid ob of
                       None \<Rightarrow> (Raised TypeError, ob)
                     | Some mid \<Rightarrow>
                         if smul s p \<ge> smul s mid
                         then on_marketable s qty p (owner (orders ob r)) ob
                         else bind
                           (\<lambda>ob. if limit (queue_objs ob q) \<noteq> p
                              then (case queues ob p of
                                      Some nq \<Rightarrow> (Returned nq, ob)
                                    | None \<Rightarrow> create_queue s p ob)
                              else (Returned q, ob))
                           (\<lambda>nq ob.
                              bind (add nq r) (\<lambda>_ ob.
                                let ob' = add_best_volume (oside (orders ob r)) qty ob
                                in call_send_private (owner (orders ob' r))
                                     (Order_Event ''Amended'' (infos (orders ob' r))) ob')
                                (update r (Some p) (Some qty) None ob))
                           ob)
                  (add_best_volume (oside (orders ob r)) (- quantity (orders ob r)) ob))
              ob)"

section \<open>Instruments and ladders used in the statements\<close>

text \<open>\<^verbatim>\<open>test_instrument\<close> of instruments.py: tick 0.1, prices to 2 digits, whole quantities.\<close>

definition test_instrument :: Instrument where
  "test_instrument =
     \<lparr>symbol = ''TEST SYMBOL'',
      lot_size = \<lparr>max_qty = 100, min_qty = 1, step_size = 1\<rparr>,
      precision = \<lparr>price_precision = 2, quote_precision = 2, quantity_precision = 0,
        base_asset_precision = 0\<rparr>,
      price_details = \<lparr>tick_size = 1 / 10, min_price = 1 / 10, max_price = 10000\<rparr>\<rparr>"

text \<open>An instrument quoted in whole prices: tick 1, prices to 0 digits.\<close>

definition integer_instrument :: Instrument where
  "integer_instrument =
     \<lparr>symbol = ''WHOLE'',
      lot_size = \<lparr>max_qty = 100, min_qty = 1, step_size = 1\<rparr>,
      precision = \<lparr>price_precision = 0, quote_precision = 2, quantity_precision = 0,
        base_asset_precision = 0\<rparr>,
      price_details = \<lparr>tick_size = 1, min_price = 1, max_price = 10000\<rparr>\<rparr>"

text \<open>
  \<open>is_ladder h r qs\<close>: following \<open>qnext\<close> from \<open>r\<close> in the queue store \<open>h\<close> visits
  exactly the queues \<open>qs\<close>, in this order, and then reaches None.
\<close>

fun is_ladder :: "(ref \<Rightarrow> Queue) \<Rightarrow> ref option \<Rightarrow> ref list \<Rightarrow> bool" where
  "is_ladder h r [] = (r = None)"
| "is_ladder h r (q # qs) = (r = Some q \<and> is_ladder h (qnext (h q)) qs)"

text \<open>
  The invariants of the book that the scan for a predecessor relies on, for a
  side \<open>s\<close> whose ladder is the list \<open>qs\<close>: every queue of the ladder is of that
  side, has a tick-aligned limit and is indexed in \<open>queues\<close> under its limit
  (invariant 1), and the limits get strictly worse along the ladder
  (invariant 2).
\<close>

definition ladder_inv :: "Orderbook \<Rightarrow> Side \<Rightarrow> ref list \<Rightarrow> bool" where
  "ladder_inv ob s qs =
     (is_ladder (queue_objs ob) (best_queue ob s) qs \<and>
      (\<forall>q \<in> set qs. qside (queue_objs ob q) = s \<and>
         is_divisible (limit (queue_objs ob q)) (book_tick_size ob) \<and>
         queues ob (limit (queue_objs ob q)) = Some q) \<and>
      sorted_wrt (\<lambda>q q'. smul s (limit (queue_objs ob q')) < smul s (limit (queue_objs ob q))) qs)"

text \<open>Invariant 6: the best bid is below the best ask when both exist.\<close>

definition uncrossed :: "Orderbook \<Rightarrow> bool" where
  "uncrossed ob =
     (case (best_queue ob BID, best_queue ob ASK) of
        (Some b, Some a) \<Rightarrow> limit (queue_objs ob b) < limit (queue_objs ob a)
      | _ \<Rightarrow> True)"

text \<open>\<open>queues\<close> indexes live queues only: each entry is a queue of a ladder, under its limit.\<close>

definition indexed_on_ladders :: "Orderbook \<Rightarrow> ref list \<Rightarrow> ref list \<Rightarrow> bool" where
  "indexed_on_ladders ob bids asks =
     (\<forall>p q. queues ob p = Some q \<longrightarrow>
        limit (queue_objs ob q) = p \<and> q \<in> set bids \<union> set asks)"

definition book_inv :: "Orderbook \<Rightarrow> ref list \<Rightarrow> ref list \<Rightarrow> bool" where
  "book_inv ob bids asks =
     (ladder_inv ob BID bids \<and> ladder_inv ob ASK asks \<and> uncrossed ob \<and>
      indexed_on_ladders ob bids asks)"


text \<open>An instrument whose price precision cannot hold its tick: tick 0.5, prices to 0 digits.\<close>

definition half_instrument :: Instrument where
  "half_instrument =
     \<lparr>symbol = ''HALF'',
      lot_size = \<lparr>max_qty = 100, min_qty = 1, step_size = 1\<rparr>,
      precision = \<lparr>price_precision = 0, quote_precision = 2, quantity_precision = 0,
        base_asset_precision = 0\<rparr>,
      price_details = \<lparr>tick_size = 1 / 2, min_price = 1 / 2, max_price = 10000\<rparr>\<rparr>"


text \<open>
  The remaining invariants of a book at rest.  \<open>back_linked\<close>: along a ladder
  each \<open>qprev\<close> is the queue before, None at the best queue.  \<open>queue_wf\<close>: a live
  queue is allocated, is not empty, keeps its volume rounded to the class
  default of 2 digits, and has a head and a tail order that carry their own
  ids, the tail with no successor.  \<open>extremes_inv\<close> is invariant 7.
\<close>

fun back_linked :: "(ref \<Rightarrow> Queue) \<Rightarrow> ref option \<Rightarrow> ref list \<Rightarrow> bool" where
  "back_linked h before [] = True"
| "back_linked h before (q # qs) = (qprev (h q) = before \<and> back_linked h (Some q) qs)"

definition queue_wf :: "Orderbook \<Rightarrow> ref \<Rightarrow> bool" where
  "queue_wf ob q =
     (q < fresh ob \<and> volume (queue_objs ob q) \<noteq> 0 \<and>
      volume_precision (queue_objs ob q) = 2 \<and>
      py_round (volume (queue_objs ob q)) 2 = volume (queue_objs ob q) \<and>
      (case (ohead (queue_objs ob q), otail (queue_objs ob q)) of
         (Some h, Some t) \<Rightarrow>
           h < fresh ob \<and> t < fresh ob \<and> order_id (orders ob h) = uuid4 h \<and>
           order_id (orders ob t) = uuid4 t \<and> onext (orders ob t) = None
       | _ \<Rightarrow> False))"

definition extremes_inv :: "Orderbook \<Rightarrow> ref list \<Rightarrow> ref list \<Rightarrow> bool" where
  "extremes_inv ob bids asks =
     (min_bid ob = (case bids of [] \<Rightarrow> PInf | _ \<Rightarrow> Fin (limit (queue_objs ob (last bids)))) \<and>
      max_ask ob = (case asks of [] \<Rightarrow> 0 | _ \<Rightarrow> limit (queue_objs ob (last asks))))"

definition wf_book :: "Orderbook \<Rightarrow> ref list \<Rightarrow> ref list \<Rightarrow> bool" where
  "wf_book ob bids asks =
     (book_inv ob bids asks \<and>
      back_linked (queue_objs ob) None bids \<and> back_linked (queue_objs ob) None asks \<and>
      (\<forall>q \<in> set bids \<union> set asks. queue_wf ob q) \<and>
      extremes_inv ob bids asks \<and>
      (\<forall>s. adjust_quantity (book_instrument ob) (best_volumes ob s) = best_volumes ob s))"

text \<open>
  \<open>restored ob ob'\<close>: \<open>ob'\<close> has the volumes, the queue structure and the best
  queues of \<open>ob\<close>, and every object that \<open>ob\<close> had allocated is unchanged.  The
  mid prices, the notifications sent and the objects allocated since are not
  compared.
\<close>

definition restored :: "Orderbook \<Rightarrow> Orderbook \<Rightarrow> bool" where
  "restored ob ob' =
     (best_volumes ob' = best_volumes ob \<and> queues ob' = queues ob \<and>
      best_queue ob' = best_queue ob \<and> min_bid ob' = min_bid ob \<and>
      max_ask ob' = max_ask ob \<and> order_map ob' = order_map ob \<and>
      (\<forall>q < fresh ob. queue_objs ob' q = queue_objs ob q) \<and>
      (\<forall>r < fresh ob. orders ob' r = orders ob r))"

text \<open>What a call of _update_mid does to a state: its outcome and the two mids it leaves.\<close>

definition mid_outcome :: "Orderbook \<Rightarrow> unit outcome" where
  "mid_outcome ob = fst (update_mid ob)"

definition mid_prev :: "Orderbook \<Rightarrow> real option" where
  "mid_prev ob = prev_mid (snd (update_mid ob))"

definition mid_curr :: "Orderbook \<Rightarrow> real option" where
  "mid_curr ob = curr_mid (snd (update_mid ob))"

text \<open>The mid that _update_mid computes first when both sides have a best queue.\<close>

definition naive_mid :: "Orderbook \<Rightarrow> ref \<Rightarrow> ref \<Rightarrow> real" where
  "naive_mid ob a b =
     adjust_price (book_instrument ob)
       (1 / 2 * (limit (queue_objs ob a) + limit (queue_objs ob b)))"



section \<open>Evaluation\<close>

lemmas model_defs =
  py_round_def round_half_even_def pow10_def Let_def is_divisible_def adjust_price_def
  adjust_quantity_def smul_def bind_def done_with_def upd_order_def upd_queue_def
  call_back_def uuid4_def filled_def infos_def new_order_def update_def add_fill_def
  empty_def rv_def new_queue_def notify_order_def add_def order_eq_def set_order_def
  set_queue_def remove_def fill_def init_def book_tick_size_def update_mid_def
  find_prev_queue_def create_queue_def del_queues_def delete_queue_def
  call_send_private_def reject_market_def get_order_def add_best_volume_def
  insert_order_def marketable_body_def on_marketable_def on_limit_def market_body_def
  on_market_def del_order_map_def on_cancel_def on_amend_def naive_mid_def
  test_instrument_def integer_instrument_def half_instrument_def
  marketable_loop.simps find_prev_scan.simps market_loop.simps

section \<open>Filled orders and the order index (C1)\<close>

text \<open>
  C1 says that an order fully filled by on_marketable is removed from its queue
  and deleted from \<open>order_map\<close>.  On a book holding one bid of 1 at 2.0 (alice),
  on_marketable(ASK, 1, 2.0, bob) fills that bid completely and empties the bid
  side, but the filled order is still the value of its id in \<open>order_map\<close>.
\<close>

theorem on_marketable_keeps_filled_order:
  "(case bind (on_limit BID 1 2 ''alice'') (\<lambda>_. on_marketable ASK 1 2 ''bob'')
          (init test_instrument True) of
      (out, ob) \<Rightarrow>
        out = Returned () \<and> order_map ob ''id'' = Some 0 \<and> filled (orders ob 0) \<and>
        best_queue ob BID = None \<and> queues ob = Map.empty)"
  by (simp add: model_defs)

section \<open>Reachable queues and the price index (C2)\<close>

text \<open>
  C2 says that after each operation every queue reachable from a best queue is
  indexed in \<open>queues\<close> under its limit.  With asks of 5 at 3.0 and of 8 at 3.2,
  on_amend moves the second order to 3.1: the emptied queue at 3.2 leaves the
  index, but it is still the last queue of the ask ladder.
\<close>

theorem on_amend_leaves_unindexed_queue:
  "(case bind (on_limit ASK 5 3 ''alice'')
           (\<lambda>_. bind (on_limit ASK 8 (32 / 10) ''bob'') (\<lambda>_. on_amend ''id++'' 8 (31 / 10)))
           (init test_instrument True) of
      (out, ob) \<Rightarrow>
        out = Returned () \<and> is_ladder (queue_objs ob) (best_queue ob ASK) [1, 4, 3] \<and>
        limit (queue_objs ob 3) = 32 / 10 \<and> queues ob (32 / 10) = None)"
  by (simp add: model_defs)

section \<open>Side volumes after a cancel (C3)\<close>

text \<open>
  C3 says that \<open>best_volumes\<close> of a side is the sum of the volumes of its queues,
  also after cancelling a partially filled order.  With bids of 10 and of 5 at
  3.0, a market order takes 4 from the first bid, which is then cancelled: the
  only queue of the side has volume 5, and \<open>best_volumes\<close> says 1.
\<close>

theorem on_cancel_partial_fill_volumes:
  "(case bind (on_limit BID 10 3 ''alice'')
           (\<lambda>_. bind (on_limit BID 5 3 ''bob'')
             (\<lambda>_. bind (on_market BID 4 ''carol'') (\<lambda>_. on_cancel ''id'')))
           (init test_instrument True) of
      (out, ob) \<Rightarrow>
        out = Returned () \<and> is_ladder (queue_objs ob) (best_queue ob BID) [1] \<and>
        dom (queues ob) = {3} \<and> volume (queue_objs ob 1) = 5 \<and> best_volumes ob BID = 1)"
  by (simp add: model_defs)

section \<open>Amending across the mid (C4)\<close>

text \<open>
  C4 says that an amend whose price crosses the mid discards the original order
  from \<open>order_map\<close>.  With a bid of 1 at 3.0 and an ask of 8 at 3.2 (mid 3.05),
  amending the ask to 12 at 2.0 takes the marketable branch, and the id of the
  original ask still maps to it afterwards.
\<close>

theorem on_amend_marketable_keeps_original:
  "(case bind (on_limit BID 1 3 ''carol'') (\<lambda>_. on_limit ASK 8 (32 / 10) ''alice'')
          (init test_instrument True) of
      (out, ob) \<Rightarrow>
        out = Returned () \<and> order_map ob ''id++'' = Some 2 \<and>
        curr_mid ob = Some (305 / 100) \<and>
        (case on_amend ''id++'' 12 2 ob of
           (out', ob') \<Rightarrow> out' = Returned () \<and> order_map ob' ''id++'' = Some 2))"
  by (simp add: model_defs)

section \<open>Recipients of fill notifications (C10)\<close>

text \<open>
  C10 says that every notification of Queue.fill goes to the owner of the filled
  order.  For alice's bid of 1 at 2.0, resting in a queue with a callback, a
  fill of 1 sends the "New Fill" message to the recipient ''id'', the id of the
  order, and only the "Filled" message to alice.
\<close>

theorem fill_sends_new_fill_to_order_id:
  "(case on_limit BID 1 2 ''alice'' (init test_instrument True) of
      (out, ob) \<Rightarrow>
        out = Returned () \<and> notify (queue_objs ob 1) \<and> ohead (queue_objs ob 1) = Some 0 \<and>
        owner (orders ob 0) = ''alice'' \<and>
        sent (fill 1 0 1 ob) =
          sent ob @
            [(''id'', New_Fill 2),
             (''alice'', Order_Event ''Filled''
                \<lparr>info_order_id = ''id'', info_side = ''BID'', info_quantity = 1,
                 info_remaining = 0, info_price = 2\<rparr>)])"
  by (simp add: model_defs)

section \<open>Market orders beyond the available liquidity (C5)\<close>

text \<open>
  C5, as the code has it: when a callback is installed and the quantity exceeds
  \<open>best_volumes\<close> of the side, on_market returns normally, the only change to
  the state is one more call of the callback, to the client, with status
  "rejected" and the reason that quotes the quantity and the available
  liquidity.
\<close>

theorem on_market_rejects_beyond_liquidity:
  assumes "best_volumes ob s < qty" and "send_private ob"
  shows "\<exists>message.
           on_market s qty client_id ob =
             (Returned (), ob\<lparr>sent := sent ob @ [(client_id, message)]\<rparr>) \<and>
           status message = ''rejected'' \<and>
           message = Rejected (Greater_than_available qty (best_volumes ob s))
                       (side_str s) qty None"
  using assms
  by (simp add: on_market_def reject_market_def call_send_private_def done_with_def
        call_back_def)

theorem on_market_rejects_beyond_liquidity_witness:
  "best_volumes (init test_instrument True) ASK < 15 \<and> send_private (init test_instrument True) \<and>
   (\<exists>message.
      on_market ASK 15 ''bob'' (init test_instrument True) =
        (Returned (), (init test_instrument True)
           \<lparr>sent := sent (init test_instrument True) @ [(''bob'', message)]\<rparr>) \<and>
      status message = ''rejected'' \<and>
      message = Rejected (Greater_than_available 15 (best_volumes (init test_instrument True) ASK))
                  (side_str ASK) 15 None)"
proof -
  have h1: "best_volumes (init test_instrument True) ASK < 15" by (simp add: init_def)
  have h2: "send_private (init test_instrument True)" by (simp add: init_def)
  from on_market_rejects_beyond_liquidity [OF h1 h2, of "''bob''"] h1 h2
  show ?thesis by blast
qed

text \<open>
  C5 as stated fails on a book built without a callback (the constructor's
  default): the rejection calls None and on_market raises TypeError.
\<close>

theorem on_market_without_callback_raises:
  "best_volumes (init test_instrument False) ASK < 15 \<and>
   on_market ASK 15 ''bob'' (init test_instrument False) =
     (Raised TypeError, init test_instrument False)"
  by (simp add: on_market_def reject_market_def call_send_private_def init_def)

section \<open>Unknown orders (C6)\<close>

text \<open>
  C6: for an id that is not in \<open>order_map\<close>, on_cancel and on_amend raise
  OrderbookException and return the state they were given: no field is changed
  and no notification is sent.
\<close>

theorem unknown_order_raises_unchanged:
  assumes "order_map ob oid = None"
  shows "on_cancel oid ob = (Raised OrderbookException, ob) \<and>
         on_amend oid qty p ob = (Raised OrderbookException, ob)"
  using assms by (simp add: on_cancel_def on_amend_def bind_def get_order_def)

theorem unknown_order_raises_unchanged_witness:
  "order_map (init test_instrument True) ''nobody'' = None \<and>
   on_cancel ''nobody'' (init test_instrument True) =
     (Raised OrderbookException, init test_instrument True) \<and>
   on_amend ''nobody'' 3 2 (init test_instrument True) =
     (Raised OrderbookException, init test_instrument True)"
proof -
  have h: "order_map (init test_instrument True) ''nobody'' = None" by (simp add: init_def)
  from unknown_order_raises_unchanged [OF h, of 3 2] h show ?thesis by blast
qed







section \<open>The published mid (C8)\<close>








section \<open>The scan for the previous queue (C9)\<close>


lemma side_value_cases: "side_value s = 1 \<or> side_value s = - 1"
  by (cases s) simp_all























end
